theory Spec2Isabelle
  imports Main "HOL-Library.Word"
begin

section \<open>The launcher \<^verbatim>\<open>native-main.c\<close> over an abstract GUI toolkit\<close>

text \<open>
  The program is two C functions, \<^verbatim>\<open>main\<close> and \<^verbatim>\<open>on_activate\<close>, that only call
  into GTK, GLib and WebKitGTK.  The embedding keeps the two functions line by line
  and makes their effect explicit: every toolkit call appends one entry to a trace,
  every constructor returns a fresh object handle, and \<^verbatim>\<open>g_signal_connect\<close> stores
  the callback in a table from which \<^verbatim>\<open>g_application_run\<close> dispatches.

  What the toolkit does on its own is not in the source; it is a parameter of the
  model (\<open>toolkit\<close> below): how often the event loop emits the signal
  \<^verbatim>\<open>activate\<close>, which status the loop returns, and whether the web view manages to load
  a URI.  All of them may depend on the process arguments.  A run is an execution in
  which every toolkit call returns.
\<close>

subsection \<open>Values\<close>

text \<open>C's \<^verbatim>\<open>int\<close> is a 32-bit word (read in two's complement by \<open>sint\<close>); a pointer to a toolkit object is the
  identity of that object, a natural number (0 is \<^verbatim>\<open>NULL\<close>).\<close>

type_synonym cint = "32 word"
type_synonym handle = nat

text \<open>The only function pointer the program passes to the toolkit.\<close>

datatype gcallback = Callback_on_activate

text \<open>The only value of \<^verbatim>\<open>GApplicationFlags\<close> the program uses.\<close>

datatype gapplication_flags = G_APPLICATION_FLAGS_NONE

text \<open>One entry per toolkit call the program makes, with the arguments of the call
  and, for a constructor, the handle it returned.  \<open>G_application_run_returns\<close>
  marks the return of the event loop with its status.  The casts \<^verbatim>\<open>GTK_WINDOW\<close>,
  \<^verbatim>\<open>GTK_CONTAINER\<close>, \<^verbatim>\<open>GTK_WIDGET\<close>, \<^verbatim>\<open>WEBKIT_WEB_VIEW\<close> and \<^verbatim>\<open>G_APPLICATION\<close>
  leave a pointer as it is.\<close>

datatype call =
    Gtk_init
  | Gtk_application_new string gapplication_flags handle
  | G_signal_connect handle string gcallback
  | G_application_run handle cint "string list"
  | G_application_run_returns cint
  | G_object_unref handle
  | Gtk_application_window_new handle handle
  | Gtk_window_set_title handle string
  | Gtk_window_set_default_size handle cint cint
  | Webkit_web_view_new handle
  | Gtk_container_add handle handle
  | Webkit_web_view_load_uri handle string
  | Gtk_widget_show_all handle

subsection \<open>The toolkit\<close>

record toolkit =
  activations :: "cint \<Rightarrow> string list \<Rightarrow> nat"
  run_status :: "cint \<Rightarrow> string list \<Rightarrow> cint"
  load_fails :: "string \<Rightarrow> bool"

record world =
  next_handle :: handle
  handlers :: "(handle \<times> string \<times> gcallback) list"
  load_errors :: "handle list"
  trace :: "call list"

definition initial_world :: world where
  "initial_world = \<lparr>next_handle = 1, handlers = [], load_errors = [], trace = []\<rparr>"

definition log :: "call \<Rightarrow> world \<Rightarrow> world" where
  "log c s = s\<lparr>trace := trace s @ [c]\<rparr>"

definition fresh :: "world \<Rightarrow> handle \<times> world" where
  "fresh s = (next_handle s, s\<lparr>next_handle := Suc (next_handle s)\<rparr>)"

definition gtk_init :: "world \<Rightarrow> world" where
  "gtk_init s = log Gtk_init s"

definition gtk_application_new ::
  "string \<Rightarrow> gapplication_flags \<Rightarrow> world \<Rightarrow> handle \<times> world" where
  "gtk_application_new application_id flags s =
     (let (app, s') = fresh s in (app, log (Gtk_application_new application_id flags app) s'))"

definition g_signal_connect :: "handle \<Rightarrow> string \<Rightarrow> gcallback \<Rightarrow> world \<Rightarrow> world" where
  "g_signal_connect instance signal cb s =
     log (G_signal_connect instance signal cb)
       (s\<lparr>handlers := handlers s @ [(instance, signal, cb)]\<rparr>)"

definition g_object_unref :: "handle \<Rightarrow> world \<Rightarrow> world" where
  "g_object_unref obj s = log (G_object_unref obj) s"

definition gtk_application_window_new :: "handle \<Rightarrow> world \<Rightarrow> handle \<times> world" where
  "gtk_application_window_new app s =
     (let (window, s') = fresh s in (window, log (Gtk_application_window_new app window) s'))"

definition gtk_window_set_title :: "handle \<Rightarrow> string \<Rightarrow> world \<Rightarrow> world" where
  "gtk_window_set_title window title s = log (Gtk_window_set_title window title) s"

definition gtk_window_set_default_size :: "handle \<Rightarrow> cint \<Rightarrow> cint \<Rightarrow> world \<Rightarrow> world" where
  "gtk_window_set_default_size window width height s =
     log (Gtk_window_set_default_size window width height) s"

definition webkit_web_view_new :: "world \<Rightarrow> handle \<times> world" where
  "webkit_web_view_new s =
     (let (view, s') = fresh s in (view, log (Webkit_web_view_new view) s'))"

definition gtk_container_add :: "handle \<Rightarrow> handle \<Rightarrow> world \<Rightarrow> world" where
  "gtk_container_add container widget s = log (Gtk_container_add container widget) s"

text \<open>The load command returns nothing.  Whether the load fails is the toolkit's
  affair; a failure is kept by the widget (\<open>load_errors\<close>), where the caller would
  have to look for it.\<close>

definition webkit_web_view_load_uri :: "toolkit \<Rightarrow> handle \<Rightarrow> string \<Rightarrow> world \<Rightarrow> world" where
  "webkit_web_view_load_uri tk view uri s =
     log (Webkit_web_view_load_uri view uri)
       (if load_fails tk uri then s\<lparr>load_errors := load_errors s @ [view]\<rparr> else s)"

definition gtk_widget_show_all :: "handle \<Rightarrow> world \<Rightarrow> world" where
  "gtk_widget_show_all widget s = log (Gtk_widget_show_all widget) s"

subsection \<open>The activation handler\<close>

definition on_activate :: "toolkit \<Rightarrow> handle \<Rightarrow> world \<Rightarrow> world" where
  "on_activate tk app s0 =
     (let (window, s1) = gtk_application_window_new app s0;
          s2 = gtk_window_set_title window ''Fedora Assistant AI'' s1;
          s3 = gtk_window_set_default_size window 1200 800 s2;
          (webview, s4) = webkit_web_view_new s3;
          s5 = gtk_container_add window webview s4;
          s6 = webkit_web_view_load_uri tk webview
                 ''file:///usr/share/FedoraAssistant/index.html'' s5
      in gtk_widget_show_all window s6)"

subsection \<open>Signal dispatch and the event loop\<close>

fun invoke :: "toolkit \<Rightarrow> gcallback \<Rightarrow> handle \<Rightarrow> world \<Rightarrow> world" where
  "invoke tk Callback_on_activate instance s = on_activate tk instance s"

text \<open>Emitting a signal on an object calls, in the order of connection, every
  callback connected to that object under that signal name.\<close>

definition g_signal_emit :: "toolkit \<Rightarrow> handle \<Rightarrow> string \<Rightarrow> world \<Rightarrow> world" where
  "g_signal_emit tk instance signal s =
     fold (\<lambda>(obj, name, cb) s'.
             if obj = instance \<and> name = signal then invoke tk cb instance s' else s')
          (handlers s) s"

text \<open>The event loop: the call is logged, the toolkit emits \<^verbatim>\<open>activate\<close> on the
  application as often as it decides to, and the loop returns the status the toolkit
  decides on.\<close>

definition g_application_run ::
  "toolkit \<Rightarrow> handle \<Rightarrow> cint \<Rightarrow> string list \<Rightarrow> world \<Rightarrow> cint \<times> world" where
  "g_application_run tk app argc argv s =
     (let s1 = log (G_application_run app argc argv) s;
          s2 = (g_signal_emit tk app ''activate'' ^^ activations tk argc argv) s1;
          status = run_status tk argc argv
      in (status, log (G_application_run_returns status) s2))"

subsection \<open>The entry point\<close>

definition main :: "toolkit \<Rightarrow> cint \<Rightarrow> string list \<Rightarrow> world \<Rightarrow> cint \<times> world" where
  "main tk argc argv s0 =
     (let s1 = gtk_init s0;
          (app, s2) = gtk_application_new ''com.urmt.FedoraAssistant'' G_APPLICATION_FLAGS_NONE s1;
          s3 = g_signal_connect app ''activate'' Callback_on_activate s2;
          (status, s4) = g_application_run tk app argc argv s3;
          s5 = g_object_unref app s4
      in (status, s5))"

text \<open>A process run: \<^verbatim>\<open>main\<close> started in a world where nothing has happened yet.\<close>

definition exit_code :: "toolkit \<Rightarrow> cint \<Rightarrow> string list \<Rightarrow> cint" where
  "exit_code tk argc argv = fst (main tk argc argv initial_world)"

definition run_trace :: "toolkit \<Rightarrow> cint \<Rightarrow> string list \<Rightarrow> call list" where
  "run_trace tk argc argv = trace (snd (main tk argc argv initial_world))"

subsection \<open>Reading a trace\<close>

text \<open>The calls one invocation of the handler adds to the trace.\<close>

definition activation_calls :: "toolkit \<Rightarrow> handle \<Rightarrow> world \<Rightarrow> call list" where
  "activation_calls tk app s = drop (length (trace s)) (trace (on_activate tk app s))"

text \<open>Lines 18 to 29 of the source as a list of calls, for the handles that the two
  constructors return.\<close>

definition handler_calls :: "handle \<Rightarrow> handle \<Rightarrow> handle \<Rightarrow> call list" where
  "handler_calls app window webview =
     [Gtk_application_window_new app window,
      Gtk_window_set_title window ''Fedora Assistant AI'',
      Gtk_window_set_default_size window 1200 800,
      Webkit_web_view_new webview,
      Gtk_container_add window webview,
      Webkit_web_view_load_uri webview ''file:///usr/share/FedoraAssistant/index.html'',
      Gtk_widget_show_all window]"

text \<open>Projections of a trace: each keeps the calls of one kind, in order.\<close>

fun status_returned :: "call \<Rightarrow> cint list" where
  "status_returned (G_application_run_returns status) = [status]"
| "status_returned _ = []"

definition statuses_returned :: "call list \<Rightarrow> cint list" where
  "statuses_returned cs = concat (map status_returned cs)"

fun uri_loaded :: "call \<Rightarrow> string list" where
  "uri_loaded (Webkit_web_view_load_uri view uri) = [uri]"
| "uri_loaded _ = []"

definition uris_loaded :: "call list \<Rightarrow> string list" where
  "uris_loaded cs = concat (map uri_loaded cs)"

fun load_into :: "handle \<Rightarrow> call \<Rightarrow> string list" where
  "load_into v (Webkit_web_view_load_uri view uri) = (if view = v then [uri] else [])"
| "load_into v _ = []"

definition loads_into :: "handle \<Rightarrow> call list \<Rightarrow> string list" where
  "loads_into v cs = concat (map (load_into v) cs)"

fun title_set :: "call \<Rightarrow> (handle \<times> string) list" where
  "title_set (Gtk_window_set_title window title) = [(window, title)]"
| "title_set _ = []"

definition titles_set :: "call list \<Rightarrow> (handle \<times> string) list" where
  "titles_set cs = concat (map title_set cs)"

fun default_size_set :: "call \<Rightarrow> (handle \<times> cint \<times> cint) list" where
  "default_size_set (Gtk_window_set_default_size window width height) = [(window, width, height)]"
| "default_size_set _ = []"

definition default_sizes_set :: "call list \<Rightarrow> (handle \<times> cint \<times> cint) list" where
  "default_sizes_set cs = concat (map default_size_set cs)"

fun window_created :: "call \<Rightarrow> (handle \<times> handle) list" where
  "window_created (Gtk_application_window_new app window) = [(app, window)]"
| "window_created _ = []"

definition windows_created :: "call list \<Rightarrow> (handle \<times> handle) list" where
  "windows_created cs = concat (map window_created cs)"

fun web_view_created :: "call \<Rightarrow> handle list" where
  "web_view_created (Webkit_web_view_new view) = [view]"
| "web_view_created _ = []"

definition web_views_created :: "call list \<Rightarrow> handle list" where
  "web_views_created cs = concat (map web_view_created cs)"

fun child_added :: "call \<Rightarrow> (handle \<times> handle) list" where
  "child_added (Gtk_container_add container widget) = [(container, widget)]"
| "child_added _ = []"

definition children_added :: "call list \<Rightarrow> (handle \<times> handle) list" where
  "children_added cs = concat (map child_added cs)"

fun application_created :: "call \<Rightarrow> (string \<times> gapplication_flags \<times> handle) list" where
  "application_created (Gtk_application_new application_id flags app) = [(application_id, flags, app)]"
| "application_created _ = []"

definition applications_created :: "call list \<Rightarrow> (string \<times> gapplication_flags \<times> handle) list" where
  "applications_created cs = concat (map application_created cs)"

fun reference_released :: "call \<Rightarrow> handle list" where
  "reference_released (G_object_unref obj) = [obj]"
| "reference_released _ = []"

definition references_released :: "call list \<Rightarrow> handle list" where
  "references_released cs = concat (map reference_released cs)"

fun run_started :: "call \<Rightarrow> (handle \<times> cint \<times> string list) list" where
  "run_started (G_application_run app argc argv) = [(app, argc, argv)]"
| "run_started _ = []"

definition runs_started :: "call list \<Rightarrow> (handle \<times> cint \<times> string list) list" where
  "runs_started cs = concat (map run_started cs)"

text \<open>A toolkit to run the program on: the event loop activates the application once
  when the process has a single argument and twice otherwise, returns the argument
  count as its status, and fails to load any URI.\<close>

definition sample_toolkit :: toolkit where
  "sample_toolkit =
     \<lparr>activations = (\<lambda>argc argv. if argc = 1 then 1 else 2),
      run_status = (\<lambda>argc argv. argc),
      load_fails = (\<lambda>uri. True)\<rparr>"

section \<open>The trace of a run\<close>

lemmas toolkit_defs =
  log_def fresh_def gtk_init_def gtk_application_new_def g_signal_connect_def
  g_object_unref_def gtk_application_window_new_def gtk_window_set_title_def
  gtk_window_set_default_size_def webkit_web_view_new_def gtk_container_add_def
  webkit_web_view_load_uri_def gtk_widget_show_all_def

lemma on_activate_trace:
  "trace (on_activate tk app s) =
     trace s @ handler_calls app (next_handle s) (Suc (next_handle s))"
  by (simp add: on_activate_def toolkit_defs Let_def handler_calls_def)

lemma on_activate_next_handle:
  "next_handle (on_activate tk app s) = Suc (Suc (next_handle s))"
  by (simp add: on_activate_def toolkit_defs Let_def)

lemma on_activate_handlers:
  "handlers (on_activate tk app s) = handlers s"
  by (simp add: on_activate_def toolkit_defs Let_def)

lemma activation_calls_eq:
  "activation_calls tk app s = handler_calls app (next_handle s) (Suc (next_handle s))"
  by (simp add: activation_calls_def on_activate_trace)

lemma g_signal_emit_single:
  "handlers s = [(app, ''activate'', Callback_on_activate)] \<Longrightarrow>
   g_signal_emit tk app ''activate'' s = on_activate tk app s"
  by (simp add: g_signal_emit_def)

lemma activations_trace:
  assumes "handlers s = [(app, ''activate'', Callback_on_activate)]"
  shows "handlers ((g_signal_emit tk app ''activate'' ^^ n) s) = handlers s"
    and "next_handle ((g_signal_emit tk app ''activate'' ^^ n) s) = next_handle s + 2 * n"
    and "trace ((g_signal_emit tk app ''activate'' ^^ n) s) = trace s @
           concat (map (\<lambda>i. handler_calls app (next_handle s + 2 * i)
                                (Suc (next_handle s + 2 * i))) [0..<n])"
proof (induction n)
  case 0
  show "handlers ((g_signal_emit tk app ''activate'' ^^ 0) s) = handlers s" by simp
  show "next_handle ((g_signal_emit tk app ''activate'' ^^ 0) s) = next_handle s + 2 * 0" by simp
  show "trace ((g_signal_emit tk app ''activate'' ^^ 0) s) = trace s @
           concat (map (\<lambda>i. handler_calls app (next_handle s + 2 * i)
                                (Suc (next_handle s + 2 * i))) [0..<0])" by simp
next
  case (Suc n)
  let ?t = "(g_signal_emit tk app ''activate'' ^^ n) s"
  from Suc(1) assms have h: "handlers ?t = [(app, ''activate'', Callback_on_activate)]" by simp
  have step: "(g_signal_emit tk app ''activate'' ^^ Suc n) s = on_activate tk app ?t"
    using g_signal_emit_single [OF h] by simp
  show "handlers ((g_signal_emit tk app ''activate'' ^^ Suc n) s) = handlers s"
    unfolding step using Suc(1) by (simp add: on_activate_handlers)
  show "next_handle ((g_signal_emit tk app ''activate'' ^^ Suc n) s) = next_handle s + 2 * Suc n"
    unfolding step using Suc(2) by (simp add: on_activate_next_handle)
  show "trace ((g_signal_emit tk app ''activate'' ^^ Suc n) s) = trace s @
           concat (map (\<lambda>i. handler_calls app (next_handle s + 2 * i)
                                (Suc (next_handle s + 2 * i))) [0..<Suc n])"
    unfolding step using Suc(2,3) by (simp add: on_activate_trace)
qed

lemma run_trace_eq:
  "run_trace tk argc argv =
     [Gtk_init,
      Gtk_application_new ''com.urmt.FedoraAssistant'' G_APPLICATION_FLAGS_NONE 1,
      G_signal_connect 1 ''activate'' Callback_on_activate,
      G_application_run 1 argc argv] @
     concat (map (\<lambda>i. handler_calls 1 (2 + 2 * i) (Suc (2 + 2 * i)))
       [0..<activations tk argc argv]) @
     [G_application_run_returns (run_status tk argc argv), G_object_unref 1]"
proof -
  let ?s = "log (G_application_run 1 argc argv)
     (g_signal_connect 1 ''activate'' Callback_on_activate
      (snd (gtk_application_new ''com.urmt.FedoraAssistant'' G_APPLICATION_FLAGS_NONE
         (gtk_init initial_world))))"
  have h: "handlers ?s = [(1, ''activate'', Callback_on_activate)]"
    by (simp add: toolkit_defs initial_world_def Let_def)
  have n: "next_handle ?s = 2"
    by (simp add: toolkit_defs initial_world_def Let_def)
  have t: "trace ?s = [Gtk_init,
      Gtk_application_new ''com.urmt.FedoraAssistant'' G_APPLICATION_FLAGS_NONE 1,
      G_signal_connect 1 ''activate'' Callback_on_activate,
      G_application_run 1 argc argv]"
    by (simp add: toolkit_defs initial_world_def Let_def)
  have m: "run_trace tk argc argv =
    trace ((g_signal_emit tk 1 ''activate'' ^^ activations tk argc argv) ?s) @
     [G_application_run_returns (run_status tk argc argv), G_object_unref 1]"
    by (simp add: run_trace_def main_def g_application_run_def toolkit_defs
          initial_world_def Let_def)
  show ?thesis
    unfolding m activations_trace(3) [OF h] n t by simp
qed

subsection \<open>Projections of the trace of a run\<close>

lemma concat_map_concat_map:
  "concat (map f (concat (map g xs))) = concat (map (\<lambda>x. concat (map f (g x))) xs)"
  by (induction xs) simp_all

lemma concat_map_empty: "concat (map (\<lambda>x. []) xs) = []"
  by (induction xs) simp_all

lemmas projection_defs =
  statuses_returned_def uris_loaded_def loads_into_def titles_set_def default_sizes_set_def
  windows_created_def web_views_created_def children_added_def applications_created_def
  references_released_def runs_started_def

lemmas run_simps =
  run_trace_eq projection_defs concat_map_concat_map handler_calls_def concat_map_empty
  map_replicate_trivial

lemma main_status: "fst (main tk argc argv s) = run_status tk argc argv"
  by (simp add: main_def g_application_run_def toolkit_defs Let_def split_def)

text \<open>Selecting the loads of one web view among those of all activations.\<close>

lemma pick_none:
  "n \<le> j \<Longrightarrow> concat (map (\<lambda>i. if i = j then [u] else []) [0..<n]) = []"
  by (induction n) simp_all

lemma pick_one:
  "j < n \<Longrightarrow> concat (map (\<lambda>i. if i = j then [u] else []) [0..<n]) = [u]"
proof (induction n)
  case 0
  then show ?case by simp
next
  case (Suc n)
  show ?case
  proof (cases "j = n")
    case True
    then show ?thesis by (simp add: pick_none)
  next
    case False
    with Suc have "concat (map (\<lambda>i. if i = j then [u] else []) [0..<n]) = [u]" by simp
    with False show ?thesis by simp
  qed
qed

lemma run_web_views_created:
  "web_views_created (run_trace tk argc argv) =
     map (\<lambda>i. Suc (2 + 2 * i)) [0..<activations tk argc argv]"
  by (simp add: run_simps)

lemma run_loads_into:
  "loads_into (Suc (2 + 2 * j)) (run_trace tk argc argv) =
     concat (map (\<lambda>i. if i = j then [''file:///usr/share/FedoraAssistant/index.html''] else [])
       [0..<activations tk argc argv])"
  by (simp add: run_simps)

section \<open>The claims\<close>

subsection \<open>C1: the exit code\<close>

text \<open>Claim C1.  The value \<^verbatim>\<open>main\<close> returns is the status the toolkit's event loop
  returned, unchanged: in a process run the loop returns once, and the exit code is
  that status; the same holds for \<^verbatim>\<open>main\<close> started in any world.\<close>

theorem exit_code_is_run_status:
  "exit_code tk argc argv = run_status tk argc argv \<and>
   statuses_returned (run_trace tk argc argv) = [exit_code tk argc argv] \<and>
   fst (main tk argc argv s) = run_status tk argc argv"
  by (simp add: exit_code_def main_status run_simps)

subsection \<open>C2: the loaded URI does not depend on the arguments\<close>

text \<open>Claim C2.  Every load command of a run carries the literal
  \<^verbatim>\<open>file:///usr/share/FedoraAssistant/index.html\<close>, one per activation; so any URI
  loaded in a run with one toolkit and argument vector equals any URI loaded in a run
  with another toolkit and argument vector.\<close>

theorem load_uri_independent_of_arguments:
  "uris_loaded (run_trace tk argc argv) =
     replicate (activations tk argc argv) ''file:///usr/share/FedoraAssistant/index.html'' \<and>
   (\<forall>u \<in> set (uris_loaded (run_trace tk argc argv)).
      \<forall>u' \<in> set (uris_loaded (run_trace tk' argc' argv')). u = u')"
  by (simp add: run_simps)

text \<open>Two runs with different argument vectors, activated once and twice: both load the
  same URI, although the second vector contains another one; the first URI loaded in
  the one run is the last loaded in the other.\<close>

theorem load_uri_independent_of_arguments_witness:
  "uris_loaded (run_trace sample_toolkit 1 [''assistant'']) =
     [''file:///usr/share/FedoraAssistant/index.html''] \<and>
   uris_loaded (run_trace sample_toolkit 2 [''assistant'', ''http://example.org/'']) =
     [''file:///usr/share/FedoraAssistant/index.html'',
      ''file:///usr/share/FedoraAssistant/index.html''] \<and>
   hd (uris_loaded (run_trace sample_toolkit 1 [''assistant''])) =
     last (uris_loaded (run_trace sample_toolkit 2 [''assistant'', ''http://example.org/'']))"
proof -
  let ?r1 = "run_trace sample_toolkit 1 [''assistant'']"
  let ?r2 = "run_trace sample_toolkit 2 [''assistant'', ''http://example.org/'']"
  have a: "activations sample_toolkit 1 [''assistant''] = Suc 0"
    by (simp add: sample_toolkit_def)
  have b: "activations sample_toolkit 2 [''assistant'', ''http://example.org/''] = Suc (Suc 0)"
    by (simp add: sample_toolkit_def)
  note t = load_uri_independent_of_arguments
    [of sample_toolkit 1 "[''assistant'']"
        sample_toolkit 2 "[''assistant'', ''http://example.org/'']"]
  note t' = load_uri_independent_of_arguments
    [of sample_toolkit 2 "[''assistant'', ''http://example.org/'']"]
  from t have 1: "uris_loaded ?r1 = [''file:///usr/share/FedoraAssistant/index.html'']"
    unfolding a by simp
  from t' have 2: "uris_loaded ?r2 =
     [''file:///usr/share/FedoraAssistant/index.html'',
      ''file:///usr/share/FedoraAssistant/index.html'']"
    unfolding b by simp
  from t have 3: "\<forall>u \<in> set (uris_loaded ?r1). \<forall>u' \<in> set (uris_loaded ?r2). u = u'"
    by (rule conjunct2)
  have m1: "hd (uris_loaded ?r1) \<in> set (uris_loaded ?r1)"
    unfolding 1 by simp
  have m2: "last (uris_loaded ?r2) \<in> set (uris_loaded ?r2)"
    unfolding 2 by simp
  from 3 m1 m2 have 4: "hd (uris_loaded ?r1) = last (uris_loaded ?r2)"
    by blast
  from 1 2 4 show ?thesis by (intro conjI)
qed

subsection \<open>C3: title and default size\<close>

text \<open>Claim C3.  Every invocation of the handler creates a window, sets a title once, on
  that window, to \<^verbatim>\<open>Fedora Assistant AI\<close>, and sets a default size once, on that
  window, to 1200 by 800.\<close>

theorem activation_title_and_default_size:
  "windows_created (activation_calls tk app s) = [(app, next_handle s)] \<and>
   titles_set (activation_calls tk app s) = [(next_handle s, ''Fedora Assistant AI'')] \<and>
   default_sizes_set (activation_calls tk app s) = [(next_handle s, 1200, 800)]"
  by (simp add: activation_calls_eq projection_defs handler_calls_def)

subsection \<open>C4: one window, one child\<close>

text \<open>Claim C4.  Every invocation of the handler creates exactly one window (owned by the
  application it was given) and exactly one web view, and adds exactly one child to a
  container: the web view to the window.  Over a whole run there are as many windows
  and as many added children as activations.\<close>

theorem activation_one_window_one_child:
  "windows_created (activation_calls tk app s) = [(app, next_handle s)] \<and>
   web_views_created (activation_calls tk app s) = [Suc (next_handle s)] \<and>
   children_added (activation_calls tk app s) = [(next_handle s, Suc (next_handle s))] \<and>
   length (windows_created (run_trace tk argc argv)) = activations tk argc argv \<and>
   length (children_added (run_trace tk argc argv)) = activations tk argc argv"
  by (simp add: activation_calls_eq run_simps)

subsection \<open>C5: one application, released once, after the loop\<close>

text \<open>Claim C5.  A run creates exactly one application object, releases exactly one
  reference, the one to that object, and the release is the last call of the run,
  right after the event loop has returned the status that becomes the exit code.\<close>

theorem one_application_released_after_run:
  "applications_created (run_trace tk argc argv) =
     [(''com.urmt.FedoraAssistant'', G_APPLICATION_FLAGS_NONE, 1)] \<and>
   references_released (run_trace tk argc argv) = [1] \<and>
   (\<exists>before. run_trace tk argc argv =
      before @ [G_application_run_returns (exit_code tk argc argv), G_object_unref 1])"
  by (simp add: exit_code_def main_status run_simps)

subsection \<open>C6: the arguments are forwarded\<close>

text \<open>Claim C6.  The event loop is started once, with the argument count and vector
  \<^verbatim>\<open>main\<close> received; the three calls made before it take none of them.\<close>

theorem arguments_forwarded_unmodified:
  "runs_started (run_trace tk argc argv) = [(1, argc, argv)] \<and>
   take 4 (run_trace tk argc argv) =
     [Gtk_init,
      Gtk_application_new ''com.urmt.FedoraAssistant'' G_APPLICATION_FLAGS_NONE 1,
      G_signal_connect 1 ''activate'' Callback_on_activate,
      G_application_run 1 argc argv]"
  by (simp add: run_simps)

subsection \<open>C7: initialisation comes first and once\<close>

text \<open>Claim C7.  The first call of a run is \<^verbatim>\<open>gtk_init\<close>, and no later call is: every
  object is created after the toolkit is initialised and there is no second
  initialisation.\<close>

theorem toolkit_initialised_once_first:
  "\<exists>rest. run_trace tk argc argv = Gtk_init # rest \<and> Gtk_init \<notin> set rest"
  by (auto simp add: run_trace_eq handler_calls_def)


subsection \<open>C8: one load per web view\<close>

text \<open>Claim C8.  An invocation of the handler creates one web view and issues one load
  command on it and none on any other object.  Over a whole run the web views
  are pairwise distinct, each has received exactly one load command, with the fixed
  URI, and there are no more load commands than web views: \<^verbatim>\<open>main\<close> issues none
  and no web view is loaded a second time.\<close>

theorem web_view_uri_assigned_once:
  "web_views_created (activation_calls tk app s) = [Suc (next_handle s)] \<and>
   loads_into v (activation_calls tk app s) =
     (if v = Suc (next_handle s) then [''file:///usr/share/FedoraAssistant/index.html''] else []) \<and>
   distinct (web_views_created (run_trace tk argc argv)) \<and>
   map (\<lambda>w. loads_into w (run_trace tk argc argv)) (web_views_created (run_trace tk argc argv)) =
     replicate (activations tk argc argv) [''file:///usr/share/FedoraAssistant/index.html''] \<and>
   length (uris_loaded (run_trace tk argc argv)) =
     length (web_views_created (run_trace tk argc argv))"
proof (intro conjI)
  let ?n = "activations tk argc argv"
  show "web_views_created (activation_calls tk app s) = [Suc (next_handle s)]"
    by (simp add: activation_calls_eq projection_defs handler_calls_def)
  show "loads_into v (activation_calls tk app s) =
     (if v = Suc (next_handle s) then [''file:///usr/share/FedoraAssistant/index.html''] else [])"
    by (simp add: activation_calls_eq projection_defs handler_calls_def)
  show "distinct (web_views_created (run_trace tk argc argv))"
    unfolding run_web_views_created by (simp add: distinct_map inj_on_def)
  have "map (\<lambda>j. loads_into (Suc (2 + 2 * j)) (run_trace tk argc argv)) [0..<?n] =
        map (\<lambda>j. [''file:///usr/share/FedoraAssistant/index.html'']) [0..<?n]"
  proof (rule map_cong)
    fix j assume "j \<in> set [0..<?n]"
    then have "j < ?n" by simp
    then show "loads_into (Suc (2 + 2 * j)) (run_trace tk argc argv) =
        [''file:///usr/share/FedoraAssistant/index.html'']"
      unfolding run_loads_into by (rule pick_one)
  qed simp
  then show "map (\<lambda>w. loads_into w (run_trace tk argc argv))
      (web_views_created (run_trace tk argc argv)) =
     replicate ?n [''file:///usr/share/FedoraAssistant/index.html'']"
    unfolding run_web_views_created by (simp add: map_replicate_trivial comp_def)
  show "length (uris_loaded (run_trace tk argc argv)) =
     length (web_views_created (run_trace tk argc argv))"
    by (simp add: run_simps)
qed

subsection \<open>C9: no error handling around the load\<close>

text \<open>Claim C9.  The handler returns nothing but the changed world, and what it does is
  the same whether or not the load fails: for two toolkits the resulting worlds agree
  on everything except the failure kept by the widget, the calls made are the
  same, and no callback is connected that could react to a failure.\<close>

theorem activation_ignores_load_outcome:
  "on_activate tk app s =
     (on_activate tk' app s)\<lparr>load_errors := load_errors (on_activate tk app s)\<rparr> \<and>
   trace (on_activate tk app s) = trace (on_activate tk' app s) \<and>
   handlers (on_activate tk app s) = handlers s \<and>
   load_errors (on_activate tk app s) = load_errors s @
     (if load_fails tk ''file:///usr/share/FedoraAssistant/index.html''
      then [Suc (next_handle s)] else [])"
  by (simp add: on_activate_def toolkit_defs Let_def)

subsection \<open>C10: the window is shown last\<close>

text \<open>Claim C10.  The handler only appends calls, and the last of them is
  \<^verbatim>\<open>gtk_widget_show_all\<close> on the new window: setting the title, setting the default
  size, adding the web view and loading the URI all come before it, and it occurs
  only once.\<close>

theorem show_all_is_last:
  "trace (on_activate tk app s) = trace s @ activation_calls tk app s \<and>
   (\<exists>before. activation_calls tk app s = before @ [Gtk_widget_show_all (next_handle s)] \<and>
      Gtk_window_set_title (next_handle s) ''Fedora Assistant AI'' \<in> set before \<and>
      Gtk_window_set_default_size (next_handle s) 1200 800 \<in> set before \<and>
      Gtk_container_add (next_handle s) (Suc (next_handle s)) \<in> set before \<and>
      Webkit_web_view_load_uri (Suc (next_handle s))
        ''file:///usr/share/FedoraAssistant/index.html'' \<in> set before \<and>
      Gtk_widget_show_all (next_handle s) \<notin> set before)"
proof
  show "trace (on_activate tk app s) = trace s @ activation_calls tk app s"
    by (simp add: activation_calls_def on_activate_trace)
  let ?w = "next_handle s"
  let ?before = "[Gtk_application_window_new app ?w,
      Gtk_window_set_title ?w ''Fedora Assistant AI'',
      Gtk_window_set_default_size ?w 1200 800,
      Webkit_web_view_new (Suc ?w),
      Gtk_container_add ?w (Suc ?w),
      Webkit_web_view_load_uri (Suc ?w) ''file:///usr/share/FedoraAssistant/index.html'']"
  have "activation_calls tk app s = ?before @ [Gtk_widget_show_all ?w]"
    by (simp add: activation_calls_eq handler_calls_def)
  then show "\<exists>before. activation_calls tk app s = before @ [Gtk_widget_show_all (next_handle s)] \<and>
      Gtk_window_set_title (next_handle s) ''Fedora Assistant AI'' \<in> set before \<and>
      Gtk_window_set_default_size (next_handle s) 1200 800 \<in> set before \<and>
      Gtk_container_add (next_handle s) (Suc (next_handle s)) \<in> set before \<and>
      Webkit_web_view_load_uri (Suc (next_handle s))
        ''file:///usr/share/FedoraAssistant/index.html'' \<in> set before \<and>
      Gtk_widget_show_all (next_handle s) \<notin> set before"
    by (intro exI [of _ ?before]) simp
qed

end
